theory Spec2Isabelle
  imports Main
begin

section \<open>Data model\<close>

text \<open>
  \<^verbatim>\<open>core/schemas/common.py\<close>: the reading status is \<^verbatim>\<open>Literal["read", "to_read"]\<close>;
  \<^verbatim>\<open>core/models/book.py\<close>: the \<^verbatim>\<open>books\<close> table has the columns
  \<^verbatim>\<open>id\<close> (primary key), \<^verbatim>\<open>title\<close>, \<^verbatim>\<open>author_id\<close> and \<^verbatim>\<open>status\<close>.
  The column \<^verbatim>\<open>id\<close> is written \<open>book_id\<close> here (\<open>id\<close> is the identity function of HOL).
  Python integers are unbounded, hence \<open>int\<close>.
\<close>

datatype book_status = read | to_read

record Book =
  book_id :: int
  title :: string
  author_id :: int
  status :: book_status

text \<open>
  \<^verbatim>\<open>core/schemas/book.py\<close>: \<^verbatim>\<open>BookCreate(BookBase)\<close> adds nothing to \<^verbatim>\<open>title\<close> and
  \<^verbatim>\<open>status\<close>; \<^verbatim>\<open>BookUpdate(BookBase)\<close> redeclares \<^verbatim>\<open>title: Optional[str]\<close>.
  Neither has a field for the author.
\<close>

record BookCreate =
  create_title :: string
  create_status :: book_status

record BookUpdate =
  update_title :: "string option"
  update_status :: book_status

text \<open>
  Modelled from the spec: the \<^verbatim>\<open>users\<close> table of \<^verbatim>\<open>core/models/user.py\<close> and the request
  schema \<^verbatim>\<open>UserCreate\<close> of \<^verbatim>\<open>core/schemas/user.py\<close>, neither of which is among the sources.
  The spec gives Users(id, username UNIQUE, email UNIQUE, password_hash) and the request body
  {username, email, password}; the code reads \<^verbatim>\<open>user.id\<close>, \<^verbatim>\<open>user.username\<close>,
  \<^verbatim>\<open>user.hashed_password\<close>, \<^verbatim>\<open>user.email\<close> and \<^verbatim>\<open>user.password\<close>.
\<close>

record User =
  user_id :: int
  username :: string
  email :: string
  hashed_password :: string

record UserCreate =
  new_username :: string
  new_email :: string
  password :: string

text \<open>
  The database behind a \<^verbatim>\<open>Session\<close>: the rows of the two tables, in insertion order.
\<close>

record db =
  users :: "User list"
  books :: "Book list"

text \<open>
  Every exception the code raises or lets through. \<^verbatim>\<open>HTTPException\<close> carries its status
  code, its detail and its headers (none is the empty list). \<^verbatim>\<open>JWTError\<close> is not among
  them: \<^verbatim>\<open>get_current_user\<close> catches it. \<^verbatim>\<open>OverflowError\<close> comes from the database
  driver; \<^verbatim>\<open>UnknownHashError\<close>, \<^verbatim>\<open>PasswordValueError\<close> (with its subclasses for a NUL
  byte and for an oversize password) and \<^verbatim>\<open>ValueError\<close> (a malformed hash) come from the
  hashing library. No route catches any of them.
\<close>

datatype exn =
    HTTPException int string "(string \<times> string) list"
  | IntegrityError
  | OverflowError
  | UnknownHashError
  | PasswordValueError
  | ValueError

section \<open>Storage primitives\<close>

text \<open>
  The integer primary key of a new row. The test suite runs on SQLite, whose rowid of a new
  row is one more than the largest rowid in the table, and 1 in an empty table.
\<close>

definition next_rowid :: "int list \<Rightarrow> int" where
  "next_rowid ids = fold max ids 0 + 1"

text \<open>
  \<^verbatim>\<open>.offset(skip)\<close> and \<^verbatim>\<open>.limit(limit)\<close> of a query. The route passes the query parameters
  unchecked, so they may be negative: SQLite reads a negative OFFSET as 0 and a negative
  LIMIT as no limit.
\<close>

text \<open>
  An integer bound to a statement must fit SQLite's 64-bit signed INTEGER; the driver
  raises \<^verbatim>\<open>OverflowError\<close> for any other. The routes take \<^verbatim>\<open>book_id\<close>, \<^verbatim>\<open>skip\<close> and
  \<^verbatim>\<open>limit\<close> as unbounded \<^verbatim>\<open>int\<close> and pass them on unchecked.
\<close>

definition sqlite_integer :: "int \<Rightarrow> bool" where
  "sqlite_integer n = (- (2 ^ 63) \<le> n \<and> n < 2 ^ 63)"

definition offset :: "int \<Rightarrow> 'a list \<Rightarrow> 'a list" where
  "offset skip rows = drop (nat skip) rows"

definition limit :: "int \<Rightarrow> 'a list \<Rightarrow> 'a list" where
  "limit n rows = (if n < 0 then rows else take (nat n) rows)"

section \<open>\<^verbatim>\<open>core/crud/book.py\<close>\<close>

text \<open>
  \<^verbatim>\<open>db_book = Book(**book.dict(), author_id=user_id); db.add(db_book); db.commit();
  db.refresh(db_book); return db_book\<close>
\<close>

definition create_book :: "db \<Rightarrow> BookCreate \<Rightarrow> int \<Rightarrow> Book \<times> db" where
  "create_book d book uid =
     (let db_book = \<lparr>book_id = next_rowid (map book_id (books d)),
                     title = create_title book,
                     author_id = uid,
                     status = create_status book\<rparr>
      in (db_book, d\<lparr>books := books d @ [db_book]\<rparr>))"

text \<open>
  \<^verbatim>\<open>db.query(Book).filter(Book.author_id == user_id).offset(skip).limit(limit).all()\<close>
\<close>

definition get_books_by_user :: "db \<Rightarrow> int \<Rightarrow> int \<Rightarrow> int \<Rightarrow> exn + Book list" where
  "get_books_by_user d uid skip lim =
     (if sqlite_integer uid \<and> sqlite_integer skip \<and> sqlite_integer lim
      then Inr (limit lim (offset skip (filter (\<lambda>b. author_id b = uid) (books d))))
      else Inl OverflowError)"

text \<open>
  \<^verbatim>\<open>db.query(Book).filter(Book.id == book_id, Book.author_id == user_id).first()\<close>:
  both ids are bound to the statement.
\<close>

definition get_book :: "db \<Rightarrow> int \<Rightarrow> int \<Rightarrow> exn + Book option" where
  "get_book d bid uid =
     (if sqlite_integer bid \<and> sqlite_integer uid
      then Inr (find (\<lambda>b. book_id b = bid \<and> author_id b = uid) (books d))
      else Inl OverflowError)"

text \<open>
  The same query, then \<^verbatim>\<open>if db_book: db.delete(db_book); db.commit()\<close>, which deletes the
  row with the primary key of \<^verbatim>\<open>db_book\<close>. A mapped object is always truthy. When the
  query raises, nothing is deleted.
\<close>

definition delete_book :: "db \<Rightarrow> int \<Rightarrow> int \<Rightarrow> (exn + Book option) \<times> db" where
  "delete_book d bid uid =
     (if sqlite_integer bid \<and> sqlite_integer uid
      then
        (case find (\<lambda>b. book_id b = bid \<and> author_id b = uid) (books d) of
           None \<Rightarrow> (Inr None, d)
         | Some db_book \<Rightarrow>
             (Inr (Some db_book),
              d\<lparr>books := filter (\<lambda>r. book_id r \<noteq> book_id db_book) (books d)\<rparr>))
      else (Inl OverflowError, d))"

text \<open>
  \<^verbatim>\<open>if book_update.title: book.title = book_update.title\<close>: \<^verbatim>\<open>None\<close> and the empty string
  are both falsy. Then \<^verbatim>\<open>book.status = book_update.status; db.commit(); db.refresh(book)\<close>:
  the commit writes the two attributes to the row with the primary key of \<^verbatim>\<open>book\<close>.
\<close>

definition update_book_status :: "db \<Rightarrow> Book \<Rightarrow> BookUpdate \<Rightarrow> Book \<times> db" where
  "update_book_status d book book_update =
     (let book1 = (case update_title book_update of
                     None \<Rightarrow> book
                   | Some t \<Rightarrow> if t \<noteq> [] then book\<lparr>title := t\<rparr> else book);
          book2 = book1\<lparr>status := update_status book_update\<rparr>
      in (book2,
          d\<lparr>books := map (\<lambda>r. if book_id r = book_id book2
                               then r\<lparr>title := title book2, status := status book2\<rparr>
                               else r) (books d)\<rparr>))"

section \<open>\<^verbatim>\<open>core/crud/user.py\<close>\<close>

text \<open>
  \<^verbatim>\<open>db.query(User).filter(User.username == username).first()\<close> and the same on
  \<^verbatim>\<open>User.email\<close>.
\<close>

definition get_user_by_username :: "db \<Rightarrow> string \<Rightarrow> User option" where
  "get_user_by_username d name = find (\<lambda>u. username u = name) (users d)"

definition get_user_by_email :: "db \<Rightarrow> string \<Rightarrow> User option" where
  "get_user_by_email d mail = find (\<lambda>u. email u = mail) (users d)"

text \<open>
  \<^verbatim>\<open>db_user = User(username=user.username, email=user.email,
  hashed_password=hashed_password); db.add(db_user); db.commit(); db.refresh(db_user)\<close>.

  Modelled from the spec: the UNIQUE constraints on \<^verbatim>\<open>username\<close> and \<^verbatim>\<open>email\<close> of the
  \<^verbatim>\<open>users\<close> table (\<^verbatim>\<open>core/models/user.py\<close> is not among the sources). The commit of a
  row that repeats a username or an email fails with a storage error that
  nothing catches, and writes nothing.
\<close>

definition create_user :: "db \<Rightarrow> UserCreate \<Rightarrow> string \<Rightarrow> (exn + User) \<times> db" where
  "create_user d user hashed =
     (if list_ex (\<lambda>r. username r = new_username user \<or> email r = new_email user) (users d)
      then (Inl IntegrityError, d)
      else
        (let db_user = \<lparr>user_id = next_rowid (map user_id (users d)),
                        username = new_username user,
                        email = new_email user,
                        hashed_password = hashed\<rparr>
         in (Inr db_user, d\<lparr>users := users d @ [db_user]\<rparr>)))"

section \<open>\<^verbatim>\<open>core/config.py\<close>\<close>

record Settings =
  DATABASE_URL :: string
  SECRET_KEY :: string
  ALGORITHM :: string
  ACCESS_TOKEN_EXPIRE_MINUTES :: int

section \<open>\<^verbatim>\<open>core/routes/users.py\<close>\<close>

text \<open>
  The two libraries the module calls are not part of the repository.

  \<^verbatim>\<open>jose.jwt\<close> is a pair of parameters: \<open>jwt_encode claims key algorithm\<close> is the token,
  and \<open>jwt_decode token key algorithms\<close> is the payload, or \<open>None\<close> where the library
  raises \<^verbatim>\<open>JWTError\<close> or one of its subclasses (bad signature, malformed token, a subject
  that is not a string). The payload is a dictionary; the code reads only \<^verbatim>\<open>"sub"\<close>.
\<close>

type_synonym claims = "string \<rightharpoonup> string"
type_synonym jwt_encode = "claims \<Rightarrow> string \<Rightarrow> string \<Rightarrow> string"
type_synonym jwt_decode = "string \<Rightarrow> string \<Rightarrow> string list \<Rightarrow> claims option"

text \<open>
  \<^verbatim>\<open>pwd_context = CryptContext(schemes=["bcrypt"], deprecated="auto")\<close>. The hashing
  library (passlib, with its bcrypt handler) is not part of the repository; this is what
  it does with a secret and a hash, as far as the routes can observe it. Strings are byte
  strings.

  The one thing left open is the cipher itself: \<open>digest config key\<close> is the checksum that
  bcrypt computes from the configuration (identifier, cost and salt: the first 29
  characters of a hash) and the key. The salt, which the library draws at random for each
  call of \<^verbatim>\<open>hash\<close>, is an argument.
\<close>

type_synonym digest = "string \<Rightarrow> string \<Rightarrow> string"

definition bcrypt64 :: string where
  "bcrypt64 = ''./ABCDEFGHIJKLMNOPQRSTUVWXYZabcdefghijklmnopqrstuvwxyz0123456789''"

text \<open>
  The context identifies the scheme of a hash by its prefix.
\<close>

definition bcrypt_identify :: "string \<Rightarrow> bool" where
  "bcrypt_identify h =
     list_ex (\<lambda>ident. take (length ident) h = ident)
       [''$2$'', ''$2a$'', ''$2x$'', ''$2y$'', ''$2b$'']"

text \<open>
  Parsing a bcrypt hash: an identifier (the \<^verbatim>\<open>$2x$\<close> variant is refused), a two-digit cost
  between 04 and 31, a \<^verbatim>\<open>$\<close>, 22 characters of salt and 31 of checksum, all from the
  bcrypt alphabet. The result is the configuration and the checksum; \<open>None\<close> stands for
  the \<^verbatim>\<open>ValueError\<close> the library raises on anything else (a missing checksum included).
\<close>

definition bcrypt_from_string :: "string \<Rightarrow> (string \<times> string) option" where
  "bcrypt_from_string h =
     (case find (\<lambda>ident. take (length ident) h = ident) [''$2$'', ''$2a$'', ''$2y$'', ''$2b$''] of
        None \<Rightarrow> None
      | Some ident \<Rightarrow>
          (let tail = drop (length ident) h;
               data = drop 3 tail
           in if length tail = 56 \<and>
                 take 2 tail \<in> set [''04'', ''05'', ''06'', ''07'', ''08'', ''09'', ''10'', ''11'', ''12'', ''13'', ''14'', ''15'', ''16'', ''17'', ''18'', ''19'', ''20'', ''21'', ''22'', ''23'', ''24'', ''25'', ''26'', ''27'', ''28'', ''29'', ''30'', ''31''] \<and>
                 tail ! 2 = CHR ''$'' \<and>
                 list_all (\<lambda>c. c \<in> set bcrypt64) data
              then Some (take (length ident + 25) h, drop 22 data)
              else None))"

text \<open>
  \<^verbatim>\<open>pwd_context.hash(secret)\<close>: a secret of more than 4096 characters or with a NUL byte
  raises \<^verbatim>\<open>PasswordValueError\<close>. Otherwise the hash is the configuration (identifier
  \<^verbatim>\<open>$2b$\<close>, cost 12, the salt) followed by the checksum of the secret, of which bcrypt
  reads the first 72 bytes only.
\<close>

definition pwd_context_hash :: "digest \<Rightarrow> string \<Rightarrow> string \<Rightarrow> exn + string" where
  "pwd_context_hash digest salt secret =
     (if 4096 < length secret \<or> CHR 0x00 \<in> set secret then Inl PasswordValueError
      else Inr (''$2b$12$'' @ salt @ digest (''$2b$12$'' @ salt) (take 72 secret)))"

text \<open>
  \<^verbatim>\<open>pwd_context.verify(secret, hash)\<close>: a hash that no configured scheme identifies raises
  \<^verbatim>\<open>UnknownHashError\<close>; then an oversize secret raises, then a hash that does not parse,
  then a secret with a NUL byte. Otherwise the checksum of the secret under the
  configuration of the hash is compared with the checksum of the hash.
\<close>

definition pwd_context_verify :: "digest \<Rightarrow> string \<Rightarrow> string \<Rightarrow> exn + bool" where
  "pwd_context_verify digest secret h =
     (if \<not> bcrypt_identify h then Inl UnknownHashError
      else if 4096 < length secret then Inl PasswordValueError
      else
        (case bcrypt_from_string h of
           None \<Rightarrow> Inl ValueError
         | Some (config, chk) \<Rightarrow>
             if CHR 0x00 \<in> set secret then Inl PasswordValueError
             else Inr (digest config (take 72 secret) = chk)))"

text \<open>\<^verbatim>\<open>return pwd_context.verify(plain_password, hashed_password)\<close>: no handler.\<close>

definition verify_password :: "digest \<Rightarrow> string \<Rightarrow> string \<Rightarrow> exn + bool" where
  "verify_password digest plain_password hashed =
     pwd_context_verify digest plain_password hashed"

text \<open>\<^verbatim>\<open>return pwd_context.hash(password)\<close>: no handler.\<close>

definition get_password_hash :: "digest \<Rightarrow> string \<Rightarrow> string \<Rightarrow> exn + string" where
  "get_password_hash digest salt pw = pwd_context_hash digest salt pw"

text \<open>
  \<^verbatim>\<open>to_encode = data.copy();
  return jwt.encode(to_encode, settings.SECRET_KEY, algorithm=settings.ALGORITHM)\<close>
\<close>

definition create_access_token :: "Settings \<Rightarrow> jwt_encode \<Rightarrow> claims \<Rightarrow> string" where
  "create_access_token s enc data = enc data (SECRET_KEY s) (ALGORITHM s)"

text \<open>
  \<^verbatim>\<open>credentials_exception\<close>, built at the start of \<^verbatim>\<open>get_current_user\<close>.
\<close>

definition credentials_exception :: exn where
  "credentials_exception =
     HTTPException 401 ''Could not validate credentials'' [(''WWW-Authenticate'', ''Bearer'')]"

text \<open>
  The \<^verbatim>\<open>try\<close> block decodes the token and reads \<^verbatim>\<open>payload.get("sub")\<close>; a
  \<^verbatim>\<open>JWTError\<close> and an absent subject both raise \<^verbatim>\<open>credentials_exception\<close>. Then the
  user is looked up by that name, and an absent user raises it too.
\<close>

definition get_current_user :: "Settings \<Rightarrow> jwt_decode \<Rightarrow> string \<Rightarrow> db \<Rightarrow> exn + User" where
  "get_current_user s dec token d =
     (case dec token (SECRET_KEY s) [ALGORITHM s] of
        None \<Rightarrow> Inl credentials_exception
      | Some payload \<Rightarrow>
          (case payload ''sub'' of
             None \<Rightarrow> Inl credentials_exception
           | Some name \<Rightarrow>
               (case get_user_by_username d name of
                  None \<Rightarrow> Inl credentials_exception
                | Some user \<Rightarrow> Inr user)))"

text \<open>
  \<^verbatim>\<open>POST /users/users/\<close>. The hash is computed first, and an exception of the hashing
  library ends the request there; then the email is looked up;
  \<^verbatim>\<open>HTTPException(status_code=400, detail="Email already registered")\<close> has no headers.
  The function returns the row that \<open>create_user\<close> stored.
\<close>

definition route_create_user ::
  "digest \<Rightarrow> string \<Rightarrow> db \<Rightarrow> UserCreate \<Rightarrow> (exn + User) \<times> db" where
  "route_create_user digest salt d user =
     (case get_password_hash digest salt (password user) of
        Inl e \<Rightarrow> (Inl e, d)
      | Inr hashed \<Rightarrow>
          (case get_user_by_email d (new_email user) of
             Some db_user \<Rightarrow> (Inl (HTTPException 400 ''Email already registered'' []), d)
           | None \<Rightarrow> create_user d user hashed))"



section \<open>\<^verbatim>\<open>core/routes/books.py\<close>\<close>

text \<open>
  Each route function receives \<^verbatim>\<open>current_user\<close> from the dependency
  \<^verbatim>\<open>get_current_user\<close> and passes \<^verbatim>\<open>current_user.id\<close> to the storage function. An
  exception of the storage function is not caught: it ends the request.
\<close>

definition not_found :: exn where
  "not_found = HTTPException 404 ''Book not found'' []"

definition route_create_book :: "db \<Rightarrow> BookCreate \<Rightarrow> User \<Rightarrow> (exn + Book) \<times> db" where
  "route_create_book d book current_user =
     (case create_book d book (user_id current_user) of (b, d') \<Rightarrow> (Inr b, d'))"

definition route_read_books :: "db \<Rightarrow> int \<Rightarrow> int \<Rightarrow> User \<Rightarrow> (exn + Book list) \<times> db" where
  "route_read_books d skip lim current_user =
     (get_books_by_user d (user_id current_user) skip lim, d)"

definition route_read_book :: "db \<Rightarrow> int \<Rightarrow> User \<Rightarrow> (exn + Book) \<times> db" where
  "route_read_book d bid current_user =
     (case get_book d bid (user_id current_user) of
        Inl e \<Rightarrow> (Inl e, d)
      | Inr None \<Rightarrow> (Inl not_found, d)
      | Inr (Some book) \<Rightarrow> (Inr book, d))"

definition route_delete_book :: "db \<Rightarrow> int \<Rightarrow> User \<Rightarrow> (exn + Book) \<times> db" where
  "route_delete_book d bid current_user =
     (case delete_book d bid (user_id current_user) of
        (Inl e, d') \<Rightarrow> (Inl e, d')
      | (Inr None, d') \<Rightarrow> (Inl not_found, d')
      | (Inr (Some book), d') \<Rightarrow> (Inr book, d'))"

definition route_update_book_status ::
  "db \<Rightarrow> int \<Rightarrow> BookUpdate \<Rightarrow> User \<Rightarrow> (exn + Book) \<times> db" where
  "route_update_book_status d bid book_update current_user =
     (case get_book d bid (user_id current_user) of
        Inl e \<Rightarrow> (Inl e, d)
      | Inr None \<Rightarrow> (Inl not_found, d)
      | Inr (Some book) \<Rightarrow>
          (case update_book_status d book book_update of
             (updated_book, d') \<Rightarrow> (Inr updated_book, d')))"

text \<open>
  The router of \<^verbatim>\<open>/books\<close>: a request carries a bearer token; the dependency
  \<^verbatim>\<open>get_current_user\<close> runs before the route function, and its exception ends the
  request with the database untouched.
\<close>

datatype request =
    POST_books BookCreate
  | GET_books int int
  | GET_book int
  | DELETE_book int
  | PUT_book int BookUpdate

datatype response = one_book Book | book_list "Book list"

definition as_one :: "(exn + Book) \<times> db \<Rightarrow> (exn + response) \<times> db" where
  "as_one r = (map_sum (\<lambda>e. e) one_book (fst r), snd r)"

definition as_list :: "(exn + Book list) \<times> db \<Rightarrow> (exn + response) \<times> db" where
  "as_list r = (map_sum (\<lambda>e. e) book_list (fst r), snd r)"

definition books_router ::
  "Settings \<Rightarrow> jwt_decode \<Rightarrow> db \<Rightarrow> string \<Rightarrow> request \<Rightarrow> (exn + response) \<times> db" where
  "books_router s dec d token req =
     (case get_current_user s dec token d of
        Inl e \<Rightarrow> (Inl e, d)
      | Inr current_user \<Rightarrow>
          (case req of
             POST_books book \<Rightarrow> as_one (route_create_book d book current_user)
           | GET_books skip lim \<Rightarrow> as_list (route_read_books d skip lim current_user)
           | GET_book bid \<Rightarrow> as_one (route_read_book d bid current_user)
           | DELETE_book bid \<Rightarrow> as_one (route_delete_book d bid current_user)
           | PUT_book bid book_update \<Rightarrow>
               as_one (route_update_book_status d bid book_update current_user)))"

text \<open>The books a response carries; an error response carries none.\<close>

fun returned_books :: "exn + response \<Rightarrow> Book list" where
  "returned_books (Inl e) = []"
| "returned_books (Inr (one_book b)) = [b]"
| "returned_books (Inr (book_list bs)) = bs"

section \<open>Properties\<close>

subsection \<open>Primary keys and owner-scoped queries\<close>

lemma fold_max_ge: "a \<le> fold max ids (a::int)"
  by (induction ids arbitrary: a) (auto intro: order_trans[OF max.cobounded2])

lemma fold_max_mem: "x \<in> set ids \<Longrightarrow> x \<le> fold max ids (a::int)"
proof (induction ids arbitrary: a)
  case Nil
  then show ?case by simp
next
  case (Cons y ys)
  show ?case
  proof (cases "x = y")
    case True
    have "y \<le> max y a" by simp
    also have "\<dots> \<le> fold max ys (max y a)" by (rule fold_max_ge)
    finally show ?thesis using True by simp
  next
    case False
    with Cons show ?thesis by simp
  qed
qed

lemma next_rowid_fresh: "next_rowid ids \<notin> set ids"
proof
  assume "next_rowid ids \<in> set ids"
  then have "next_rowid ids \<le> fold max ids 0" by (rule fold_max_mem)
  then show False by (simp add: next_rowid_def)
qed

lemma find_other_owner:
  assumes pk: "distinct (map book_id rows)"
    and mem: "b \<in> set rows"
    and other: "author_id b \<noteq> uid"
  shows "find (\<lambda>r. book_id r = book_id b \<and> author_id r = uid) rows = None"
proof -
  have "r = b" if "r \<in> set rows" "book_id r = book_id b" for r
    using pk mem that by (auto simp: distinct_map dest: inj_onD)
  with other show ?thesis
    by (auto simp: find_None_iff)
qed

lemma find_absent:
  "bid \<notin> set (map book_id rows) \<Longrightarrow>
   find (\<lambda>r. book_id r = bid \<and> author_id r = uid) rows = None"
  by (auto simp: find_None_iff)

lemma find_owner: "find (\<lambda>r. book_id r = bid \<and> author_id r = uid) rows = Some x \<Longrightarrow>
  x \<in> set rows \<and> book_id x = bid \<and> author_id x = uid"
  by (auto simp: find_Some_iff)

lemma pk_same_row:
  "distinct (map book_id rows) \<Longrightarrow> x \<in> set rows \<Longrightarrow> y \<in> set rows \<Longrightarrow>
   book_id x = book_id y \<Longrightarrow> x = y"
  by (auto simp: distinct_map dest: inj_onD)

lemma set_limit: "set (limit n rows) \<subseteq> set rows"
  by (auto simp: limit_def dest: in_set_takeD)

lemma set_offset: "set (offset n rows) \<subseteq> set rows"
  by (auto simp: offset_def dest: in_set_dropD)

lemma get_books_by_user_owner:
  "get_books_by_user d uid skip lim = Inr page \<Longrightarrow> x \<in> set page \<Longrightarrow>
   x \<in> set (books d) \<and> author_id x = uid"
  using set_limit set_offset unfolding get_books_by_user_def
  by (fastforce split: if_splits)

lemma get_book_owner:
  "get_book d bid uid = Inr (Some x) \<Longrightarrow>
   x \<in> set (books d) \<and> book_id x = bid \<and> author_id x = uid"
  by (auto simp: get_book_def split: if_splits dest: find_owner)

text \<open>
  What a request of the resolved user does to a stored book of another author: nothing,
  and the response does not carry it.
\<close>

lemma router_keeps_foreign_book:
  assumes pk: "distinct (map book_id (books d))"
    and mem: "b \<in> set (books d)"
    and other: "author_id b \<noteq> user_id B"
    and auth: "get_current_user s dec token d = Inr B"
  shows "b \<in> set (books (snd (books_router s dec d token req))) \<and>
         b \<notin> set (returned_books (fst (books_router s dec d token req)))"
proof (cases req)
  case (POST_books book)
  then show ?thesis using mem other auth
    by (auto simp: books_router_def as_one_def route_create_book_def create_book_def Let_def)
next
  case (GET_books skip lim)
  show ?thesis
  proof (cases "get_books_by_user d (user_id B) skip lim")
    case (Inl e)
    with GET_books mem auth show ?thesis
      by (simp add: books_router_def as_list_def route_read_books_def)
  next
    case (Inr page)
    with get_books_by_user_owner[OF Inr, of b] other have "b \<notin> set page" by auto
    with Inr GET_books mem auth show ?thesis
      by (simp add: books_router_def as_list_def route_read_books_def)
  qed
next
  case (GET_book bid)
  show ?thesis
  proof (cases "get_book d bid (user_id B)")
    case (Inl e)
    with GET_book mem auth show ?thesis
      by (simp add: books_router_def as_one_def route_read_book_def)
  next
    case (Inr found)
    show ?thesis
    proof (cases found)
      case None
      with Inr GET_book mem auth show ?thesis
        by (simp add: books_router_def as_one_def route_read_book_def)
    next
      case (Some x)
      with Inr get_book_owner[of d bid "user_id B" x] other have "x \<noteq> b" by auto
      with Some Inr GET_book mem auth show ?thesis
        by (simp add: books_router_def as_one_def route_read_book_def)
    qed
  qed
next
  case (DELETE_book bid)
  show ?thesis
  proof (cases "sqlite_integer bid \<and> sqlite_integer (user_id B)")
    case False
    then show ?thesis using DELETE_book mem auth
      by (auto simp: books_router_def as_one_def route_delete_book_def delete_book_def)
  next
    case True
    show ?thesis
    proof (cases "find (\<lambda>r. book_id r = bid \<and> author_id r = user_id B) (books d)")
      case None
      then show ?thesis using True DELETE_book mem auth
        by (simp add: books_router_def as_one_def route_delete_book_def delete_book_def)
    next
      case (Some x)
      from find_owner[OF Some] have x: "x \<in> set (books d)" "author_id x = user_id B" by simp_all
      with other have "x \<noteq> b" by auto
      with pk_same_row[OF pk x(1) mem] have "book_id b \<noteq> book_id x" by auto
      with Some \<open>x \<noteq> b\<close> show ?thesis using True DELETE_book mem auth
        by (simp add: books_router_def as_one_def route_delete_book_def delete_book_def)
    qed
  qed
next
  case (PUT_book bid bu)
  show ?thesis
  proof (cases "get_book d bid (user_id B)")
    case (Inl e)
    with PUT_book mem auth show ?thesis
      by (simp add: books_router_def as_one_def route_update_book_status_def)
  next
    case (Inr found)
    show ?thesis
    proof (cases found)
      case None
      with Inr PUT_book mem auth show ?thesis
        by (simp add: books_router_def as_one_def route_update_book_status_def)
    next
      case (Some x)
      from get_book_owner[of d bid "user_id B" x] Inr Some
      have x: "x \<in> set (books d)" "author_id x = user_id B" by simp_all
      with other have "x \<noteq> b" by auto
      with pk_same_row[OF pk x(1) mem] have ne: "book_id b \<noteq> book_id x" by auto
      have upd: "author_id (fst (update_book_status d x bu)) = author_id x"
        "book_id (fst (update_book_status d x bu)) = book_id x"
        by (simp_all add: update_book_status_def Let_def split: option.split)
      have "b \<in> set (books (snd (update_book_status d x bu)))"
        using mem ne by (force simp: update_book_status_def Let_def split: option.split)
      moreover have "fst (update_book_status d x bu) \<noteq> b"
        using upd x other by auto
      ultimately show ?thesis using PUT_book Some Inr auth
        by (auto simp: books_router_def as_one_def route_update_book_status_def
            split: prod.split)
    qed
  qed
qed

text \<open>
  An id outside the 64-bit range never reaches the tables: the query raises and the
  routes let the exception through.
\<close>

lemma get_book_overflow:
  "\<not> (sqlite_integer bid \<and> sqlite_integer uid) \<Longrightarrow>
   get_book d bid uid = Inl OverflowError \<and> delete_book d bid uid = (Inl OverflowError, d)"
  by (auto simp: get_book_def delete_book_def)

text \<open>
  C1. Let the book ids be distinct (the primary key), let \<open>b\<close> be a stored book and \<open>B\<close>
  the user a token resolves to, with \<open>b\<close> not authored by \<open>B\<close>; the ids of stored rows are
  64-bit integers. Then \<open>get_book\<close> and \<open>delete_book\<close> on the id of \<open>b\<close> return \<open>None\<close> for
  \<open>B\<close> and leave the database as it was; GET, DELETE and PUT \<^verbatim>\<open>/books/{id}\<close> answer 404
  "Book not found" (not 403), exactly as they do for a 64-bit id that no book has; and
  whatever request \<open>B\<close>'s token sends to the router, \<open>b\<close> is still stored unchanged
  afterwards and is not in the response.
\<close>

theorem foreign_book_not_found:
  assumes pk: "distinct (map book_id (books d))"
    and mem: "b \<in> set (books d)"
    and other: "author_id b \<noteq> user_id B"
    and auth: "get_current_user s dec token d = Inr B"
    and ids: "sqlite_integer (book_id b) \<and> sqlite_integer (user_id B)"
    and absent: "bid0 \<notin> set (map book_id (books d)) \<and> sqlite_integer bid0"
  shows "get_book d (book_id b) (user_id B) = Inr None \<and>
         delete_book d (book_id b) (user_id B) = (Inr None, d) \<and>
         route_read_book d (book_id b) B = (Inl (HTTPException 404 ''Book not found'' []), d) \<and>
         route_delete_book d (book_id b) B = (Inl (HTTPException 404 ''Book not found'' []), d) \<and>
         route_update_book_status d (book_id b) bu B =
           (Inl (HTTPException 404 ''Book not found'' []), d) \<and>
         books_router s dec d token (GET_book (book_id b)) =
           books_router s dec d token (GET_book bid0) \<and>
         books_router s dec d token (DELETE_book (book_id b)) =
           books_router s dec d token (DELETE_book bid0) \<and>
         books_router s dec d token (PUT_book (book_id b) bu) =
           books_router s dec d token (PUT_book bid0 bu) \<and>
         b \<in> set (books (snd (books_router s dec d token req))) \<and>
         b \<notin> set (returned_books (fst (books_router s dec d token req)))"
proof -
  have f1: "find (\<lambda>r. book_id r = book_id b \<and> author_id r = user_id B) (books d) = None"
    using pk mem other by (rule find_other_owner)
  have f0: "find (\<lambda>r. book_id r = bid0 \<and> author_id r = user_id B) (books d) = None"
    using absent by (simp add: find_absent)
  have crud: "get_book d (book_id b) (user_id B) = Inr None"
    "delete_book d (book_id b) (user_id B) = (Inr None, d)"
    using f1 ids by (simp_all add: get_book_def delete_book_def)
  have crud0: "get_book d bid0 (user_id B) = Inr None"
    "delete_book d bid0 (user_id B) = (Inr None, d)"
    using f0 ids absent by (simp_all add: get_book_def delete_book_def)
  have routes: "route_read_book d (book_id b) B = (Inl (HTTPException 404 ''Book not found'' []), d)"
    "route_delete_book d (book_id b) B = (Inl (HTTPException 404 ''Book not found'' []), d)"
    "route_update_book_status d (book_id b) bu B =
       (Inl (HTTPException 404 ''Book not found'' []), d)"
    using crud by (simp_all add: route_read_book_def route_delete_book_def
        route_update_book_status_def not_found_def)
  have same: "books_router s dec d token (GET_book (book_id b)) =
           books_router s dec d token (GET_book bid0)"
    "books_router s dec d token (DELETE_book (book_id b)) =
           books_router s dec d token (DELETE_book bid0)"
    "books_router s dec d token (PUT_book (book_id b) bu) =
           books_router s dec d token (PUT_book bid0 bu)"
    using crud crud0 auth by (simp_all add: books_router_def route_read_book_def
        route_delete_book_def route_update_book_status_def)
  from router_keeps_foreign_book[OF pk mem other auth, of req] crud routes same
  show ?thesis by simp
qed

theorem foreign_book_not_found_witness:
  "(let alice = \<lparr>user_id = 1, username = ''alice'', email = ''a@x.com'', hashed_password = ''$2b$a''\<rparr>;
        bob = \<lparr>user_id = 2, username = ''bob'', email = ''b@x.com'', hashed_password = ''$2b$b''\<rparr>;
        dune = \<lparr>book_id = 1, title = ''Dune'', author_id = 1, status = to_read\<rparr>;
        d = \<lparr>users = [alice, bob], books = [dune]\<rparr>;
        s = \<lparr>DATABASE_URL = ''sqlite://'', SECRET_KEY = ''k'', ALGORITHM = ''HS256'',
             ACCESS_TOKEN_EXPIRE_MINUTES = 30\<rparr>;
        dec = (\<lambda>t k algs. if t = ''bobs-token'' then Some [''sub'' \<mapsto> ''bob''] else None)
    in get_current_user s dec ''bobs-token'' d = Inr bob \<and>
       get_book d 1 2 = Inr None \<and>
       delete_book d 1 2 = (Inr None, d) \<and>
       route_read_book d 1 bob = (Inl (HTTPException 404 ''Book not found'' []), d) \<and>
       books_router s dec d ''bobs-token'' (GET_book 1) = books_router s dec d ''bobs-token'' (GET_book 7) \<and>
       dune \<in> set (books (snd (books_router s dec d ''bobs-token'' (GET_books 0 10)))) \<and>
       dune \<notin> set (returned_books (fst (books_router s dec d ''bobs-token'' (GET_books 0 10)))))"
proof -
  define alice where "alice = \<lparr>user_id = 1, username = ''alice'', email = ''a@x.com'', hashed_password = ''$2b$a''\<rparr>"
  define bob where "bob = \<lparr>user_id = 2, username = ''bob'', email = ''b@x.com'', hashed_password = ''$2b$b''\<rparr>"
  define dune where "dune = \<lparr>book_id = 1, title = ''Dune'', author_id = 1, status = to_read\<rparr>"
  define d where "d = \<lparr>users = [alice, bob], books = [dune]\<rparr>"
  define s where "s = \<lparr>DATABASE_URL = ''sqlite://'', SECRET_KEY = ''k'', ALGORITHM = ''HS256'',
             ACCESS_TOKEN_EXPIRE_MINUTES = 30\<rparr>"
  define dec :: jwt_decode where
    "dec = (\<lambda>t k algs. if t = ''bobs-token'' then Some [''sub'' \<mapsto> ''bob''] else None)"
  note defs = alice_def bob_def dune_def d_def s_def dec_def
  have pk: "distinct (map book_id (books d))" by (simp add: defs)
  have mem: "dune \<in> set (books d)" by (simp add: defs)
  have other: "author_id dune \<noteq> user_id bob" by (simp add: defs)
  have auth: "get_current_user s dec ''bobs-token'' d = Inr bob"
    by (simp add: defs get_current_user_def get_user_by_username_def)
  have ids: "sqlite_integer (book_id dune) \<and> sqlite_integer (user_id bob)"
    by (simp add: defs sqlite_integer_def)
  have absent: "7 \<notin> set (map book_id (books d)) \<and> sqlite_integer 7"
    by (simp add: defs sqlite_integer_def)
  from foreign_book_not_found[OF pk mem other auth ids absent, of _ "GET_books 0 10"] auth
  show ?thesis
    unfolding Let_def defs[symmetric] by (simp add: defs)
qed

subsection \<open>Updating a book\<close>

text \<open>
  C6. \<open>update_book_status\<close> always writes the supplied status, to the returned book and to
  its row; it writes the supplied title exactly when one is supplied and is not empty, and
  otherwise leaves the title of the book and of its row as it was.
\<close>

theorem update_book_status_fields:
  "status (fst (update_book_status d book bu)) = update_status bu \<and>
   title (fst (update_book_status d book bu)) =
     (case update_title bu of
        None \<Rightarrow> title book
      | Some t \<Rightarrow> if t = [] then title book else t) \<and>
   books (snd (update_book_status d book bu)) =
     map (\<lambda>r. if book_id r = book_id book
              then r\<lparr>title := (case update_title bu of
                                  None \<Rightarrow> title book
                                | Some t \<Rightarrow> if t = [] then title book else t),
                     status := update_status bu\<rparr>
              else r) (books d)"
  by (simp add: update_book_status_def Let_def split: option.split)

subsection \<open>Ownership of a book never changes\<close>

lemma update_book_status_keys:
  "book_id (fst (update_book_status d bk bu)) = book_id bk \<and>
   author_id (fst (update_book_status d bk bu)) = author_id bk \<and>
   map book_id (books (snd (update_book_status d bk bu))) = map book_id (books d) \<and>
   map author_id (books (snd (update_book_status d bk bu))) = map author_id (books d)"
  by (simp add: update_book_status_def Let_def split: option.split)

lemma update_book_status_row:
  assumes "r' \<in> set (books (snd (update_book_status d bk bu)))"
  shows "\<exists>r0 \<in> set (books d). book_id r0 = book_id r' \<and> author_id r0 = author_id r'"
  using assms by (auto simp: update_book_status_def Let_def split: option.splits if_splits)

lemma delete_book_row:
  "r' \<in> set (books (snd (delete_book d bid uid))) \<Longrightarrow> r' \<in> set (books d)"
  by (auto simp: delete_book_def split: option.splits if_splits)

lemma create_book_row:
  "r' \<in> set (books (snd (create_book d book uid))) \<Longrightarrow>
   r' \<in> set (books d) \<or> book_id r' = next_rowid (map book_id (books d))"
  by (auto simp: create_book_def Let_def)

lemma router_rows:
  assumes "r' \<in> set (books (snd (books_router s dec d token req)))"
  shows "(\<exists>r0 \<in> set (books d). book_id r0 = book_id r' \<and> author_id r0 = author_id r') \<or>
         book_id r' = next_rowid (map book_id (books d))"
proof (cases "get_current_user s dec token d")
  case (Inl e)
  with assms show ?thesis by (auto simp: books_router_def)
next
  case (Inr cu)
  show ?thesis
  proof (cases req)
    case (POST_books book)
    with Inr assms create_book_row[of r' d book "user_id cu"] show ?thesis
      by (auto simp: books_router_def as_one_def route_create_book_def split: prod.splits)
  next
    case (GET_books skip lim)
    with Inr assms show ?thesis
      by (auto simp: books_router_def as_list_def route_read_books_def)
  next
    case (GET_book bid)
    with Inr assms show ?thesis
      by (auto simp: books_router_def as_one_def route_read_book_def
          split: option.splits sum.splits)
  next
    case (DELETE_book bid)
    with Inr assms delete_book_row[of r' d bid "user_id cu"] show ?thesis
      by (auto simp: books_router_def as_one_def route_delete_book_def
          split: prod.splits option.splits sum.splits)
  next
    case (PUT_book bid bu)
    show ?thesis
    proof (cases "\<exists>bk. get_book d bid (user_id cu) = Inr (Some bk)")
      case False
      with PUT_book Inr assms show ?thesis
        by (auto simp: books_router_def as_one_def route_update_book_status_def
            split: sum.splits option.splits)
    next
      case True
      then obtain bk where "get_book d bid (user_id cu) = Inr (Some bk)" ..
      with PUT_book Inr assms have "r' \<in> set (books (snd (update_book_status d bk bu)))"
        by (auto simp: books_router_def as_one_def route_update_book_status_def split: prod.splits)
      from update_book_status_row[OF this] show ?thesis by blast
    qed
  qed
qed

lemma router_keeps_author:
  assumes pk: "distinct (map book_id (books d))"
    and r: "r \<in> set (books d)"
    and r': "r' \<in> set (books (snd (books_router s dec d token req)))"
    and same: "book_id r' = book_id r"
  shows "author_id r' = author_id r"
proof -
  from router_rows[OF r'] consider
    r0 where "r0 \<in> set (books d)" "book_id r0 = book_id r'" "author_id r0 = author_id r'"
    | "book_id r' = next_rowid (map book_id (books d))"
    by blast
  then show ?thesis
  proof cases
    case 1
    with pk_same_row[OF pk 1(1) r] same show ?thesis by simp
  next
    case 2
    with same r next_rowid_fresh[of "map book_id (books d)"] show ?thesis by force
  qed
qed

lemma router_create_author:
  assumes auth: "get_current_user s dec token d = Inr cu"
  shows "books_router s dec d token (POST_books book) =
           (Inr (one_book (fst (create_book d book (user_id cu)))),
            d\<lparr>books := books d @ [fst (create_book d book (user_id cu))]\<rparr>)"
  using auth by (simp add: books_router_def as_one_def route_create_book_def create_book_def Let_def)

text \<open>
  The primary key is an invariant of the router: from distinct book ids, every request
  leads to distinct book ids.
\<close>

lemma router_keeps_primary_key:
  assumes pk: "distinct (map book_id (books d))"
  shows "distinct (map book_id (books (snd (books_router s dec d token req))))"
proof (cases "get_current_user s dec token d")
  case (Inl e)
  with pk show ?thesis by (simp add: books_router_def)
next
  case (Inr cu)
  show ?thesis
  proof (cases req)
    case (POST_books book)
    with Inr pk next_rowid_fresh[of "map book_id (books d)"] show ?thesis
      by (simp add: books_router_def as_one_def route_create_book_def create_book_def Let_def)
  next
    case (GET_books skip lim)
    with Inr pk show ?thesis
      by (simp add: books_router_def as_list_def route_read_books_def)
  next
    case (GET_book bid)
    with Inr pk show ?thesis
      by (simp add: books_router_def as_one_def route_read_book_def
          split: option.split sum.split)
  next
    case (DELETE_book bid)
    with Inr pk show ?thesis
      by (simp add: books_router_def as_one_def route_delete_book_def delete_book_def
          distinct_map_filter split: option.split)
  next
    case (PUT_book bid bu)
    show ?thesis
    proof (cases "\<exists>bk. get_book d bid (user_id cu) = Inr (Some bk)")
      case False
      with PUT_book Inr pk show ?thesis
        by (auto simp: books_router_def as_one_def route_update_book_status_def
            split: sum.splits option.splits)
    next
      case True
      then obtain bk where "get_book d bid (user_id cu) = Inr (Some bk)" ..
      with PUT_book Inr have "books (snd (books_router s dec d token req)) =
          books (snd (update_book_status d bk bu))"
        by (simp add: books_router_def as_one_def route_update_book_status_def split: prod.split)
      with pk update_book_status_keys[of d bk bu] show ?thesis by simp
    qed
  qed
qed

text \<open>
  C2. \<open>create_book\<close> stores the book with the author id it is given, whatever the request
  body (which has no author field), and the route gives it the id of the user the token
  resolves to. \<open>update_book_status\<close> keeps the id and the author id of the book it returns
  and of every row. With distinct book ids, no request to the router changes the author id
  stored under a book id: a row found under the same id afterwards has the same author.
\<close>

theorem author_id_is_acting_user:
  assumes pk: "distinct (map book_id (books d))"
    and auth: "get_current_user s dec token d = Inr cu"
  shows "author_id (fst (create_book d book uid)) = uid \<and>
         books (snd (create_book d book uid)) = books d @ [fst (create_book d book uid)] \<and>
         books_router s dec d token (POST_books book) =
           (Inr (one_book (fst (create_book d book (user_id cu)))),
            d\<lparr>books := books d @ [fst (create_book d book (user_id cu))]\<rparr>) \<and>
         author_id (fst (create_book d book (user_id cu))) = user_id cu \<and>
         book_id (fst (update_book_status d bk bu)) = book_id bk \<and>
         author_id (fst (update_book_status d bk bu)) = author_id bk \<and>
         map book_id (books (snd (update_book_status d bk bu))) = map book_id (books d) \<and>
         map author_id (books (snd (update_book_status d bk bu))) = map author_id (books d) \<and>
         (\<forall>r \<in> set (books d). \<forall>r' \<in> set (books (snd (books_router s dec d token req))).
            book_id r' = book_id r \<longrightarrow> author_id r' = author_id r)"
proof -
  have a: "author_id (fst (create_book d book u)) = u \<and>
      books (snd (create_book d book u)) = books d @ [fst (create_book d book u)]" for u
    by (simp add: create_book_def Let_def)
  have c: "\<forall>r \<in> set (books d). \<forall>r' \<in> set (books (snd (books_router s dec d token req))).
            book_id r' = book_id r \<longrightarrow> author_id r' = author_id r"
    using router_keeps_author[OF pk] by blast
  from a[of uid] a[of "user_id cu"] router_create_author[OF auth, of book]
    update_book_status_keys[of d bk bu] c
  show ?thesis by simp
qed


theorem author_id_is_acting_user_witness:
  "(let alice = \<lparr>user_id = 1, username = ''alice'', email = ''a@x.com'', hashed_password = ''$2b$a''\<rparr>;
        dune = \<lparr>book_id = 1, title = ''Dune'', author_id = 1, status = to_read\<rparr>;
        emma = \<lparr>create_title = ''Emma'', create_status = read\<rparr>;
        d = \<lparr>users = [alice], books = [dune]\<rparr>;
        s = \<lparr>DATABASE_URL = ''sqlite://'', SECRET_KEY = ''k'', ALGORITHM = ''HS256'',
             ACCESS_TOKEN_EXPIRE_MINUTES = 30\<rparr>;
        dec = (\<lambda>t k algs. if t = ''alices-token'' then Some [''sub'' \<mapsto> ''alice''] else None)
    in distinct (map book_id (books d)) \<and>
       get_current_user s dec ''alices-token'' d = Inr alice \<and>
       books_router s dec d ''alices-token'' (POST_books emma) =
         (Inr (one_book \<lparr>book_id = 2, title = ''Emma'', author_id = 1, status = read\<rparr>),
          \<lparr>users = [alice],
           books = [dune, \<lparr>book_id = 2, title = ''Emma'', author_id = 1, status = read\<rparr>]\<rparr>) \<and>
       author_id (fst (update_book_status d dune \<lparr>update_title = Some ''Dune II'', update_status = read\<rparr>)) = 1 \<and>
       map author_id (books (snd (update_book_status d dune
          \<lparr>update_title = Some ''Dune II'', update_status = read\<rparr>))) = [1])"
proof -
  define alice where "alice = \<lparr>user_id = 1, username = ''alice'', email = ''a@x.com'', hashed_password = ''$2b$a''\<rparr>"
  define dune where "dune = \<lparr>book_id = 1, title = ''Dune'', author_id = 1, status = to_read\<rparr>"
  define emma where "emma = \<lparr>create_title = ''Emma'', create_status = read\<rparr>"
  define d where "d = \<lparr>users = [alice], books = [dune]\<rparr>"
  define s where "s = \<lparr>DATABASE_URL = ''sqlite://'', SECRET_KEY = ''k'', ALGORITHM = ''HS256'',
             ACCESS_TOKEN_EXPIRE_MINUTES = 30\<rparr>"
  define dec :: jwt_decode where
    "dec = (\<lambda>t k algs. if t = ''alices-token'' then Some [''sub'' \<mapsto> ''alice''] else None)"
  note defs = alice_def dune_def emma_def d_def s_def dec_def
  have pk: "distinct (map book_id (books d))" by (simp add: defs)
  have auth: "get_current_user s dec ''alices-token'' d = Inr alice"
    by (simp add: defs get_current_user_def get_user_by_username_def)
  have new: "fst (create_book d emma (user_id alice)) =
      \<lparr>book_id = 2, title = ''Emma'', author_id = 1, status = read\<rparr>"
    by (simp add: defs create_book_def next_rowid_def Let_def)
  from author_id_is_acting_user[OF pk auth, of emma 1 dune
      "\<lparr>update_title = Some ''Dune II'', update_status = read\<rparr>" "GET_books 0 10"] pk auth new
  show ?thesis
    unfolding Let_def defs[symmetric] by (simp add: defs)
qed

subsection \<open>Resolving the acting user\<close>

lemma get_user_by_username_Some:
  "get_user_by_username d name = Some user \<Longrightarrow> user \<in> set (users d) \<and> username user = name"
  by (auto simp: get_user_by_username_def find_Some_iff)

lemma get_user_by_username_None:
  "get_user_by_username d name = None \<longleftrightarrow> name \<notin> set (map username (users d))"
  by (auto simp: get_user_by_username_def find_None_iff)

text \<open>
  C8. \<open>get_current_user\<close> raises \<open>credentials_exception\<close> exactly when the decoder rejects
  the token, or the payload has no subject, or no user has the subject as username. Any
  exception it raises is the 401 "Could not validate credentials" with the header
  \<^verbatim>\<open>WWW-Authenticate: Bearer\<close>, and the router returns it with the database untouched. When
  the token decodes to a subject that is a stored username, it returns the user found
  under that name.
\<close>

theorem get_current_user_unauthorized:
  "(get_current_user s dec token d = Inl credentials_exception \<longleftrightarrow>
      (dec token (SECRET_KEY s) [ALGORITHM s] = None \<or>
       (\<exists>payload. dec token (SECRET_KEY s) [ALGORITHM s] = Some payload \<and>
          (payload ''sub'' = None \<or>
           (\<exists>name. payload ''sub'' = Some name \<and>
              name \<notin> set (map username (users d))))))) \<and>
   (\<forall>e. get_current_user s dec token d = Inl e \<longrightarrow>
      e = HTTPException 401 ''Could not validate credentials''
            [(''WWW-Authenticate'', ''Bearer'')] \<and>
      books_router s dec d token req = (Inl e, d)) \<and>
   (\<forall>payload name.
      dec token (SECRET_KEY s) [ALGORITHM s] = Some payload \<and> payload ''sub'' = Some name \<and>
      name \<in> set (map username (users d)) \<longrightarrow>
      (\<exists>user. get_current_user s dec token d = Inr user \<and>
         get_user_by_username d name = Some user \<and>
         user \<in> set (users d) \<and> username user = name))"
proof (intro conjI allI impI)
  show "get_current_user s dec token d = Inl credentials_exception \<longleftrightarrow>
      (dec token (SECRET_KEY s) [ALGORITHM s] = None \<or>
       (\<exists>payload. dec token (SECRET_KEY s) [ALGORITHM s] = Some payload \<and>
          (payload ''sub'' = None \<or>
           (\<exists>name. payload ''sub'' = Some name \<and>
              name \<notin> set (map username (users d))))))"
  proof (cases "dec token (SECRET_KEY s) [ALGORITHM s]")
    case None
    then show ?thesis by (simp add: get_current_user_def)
  next
    case (Some payload)
    show ?thesis
    proof (cases "payload ''sub''")
      case None
      with Some show ?thesis by (simp add: get_current_user_def)
    next
      case (Some name)
      with \<open>dec token (SECRET_KEY s) [ALGORITHM s] = Some payload\<close>
        get_user_by_username_None[of d name]
      show ?thesis
        by (cases "get_user_by_username d name") (simp_all add: get_current_user_def)
    qed
  qed
next
  fix e
  assume e: "get_current_user s dec token d = Inl e"
  then show "e = HTTPException 401 ''Could not validate credentials''
            [(''WWW-Authenticate'', ''Bearer'')]"
    by (auto simp: get_current_user_def credentials_exception_def split: option.splits)
  from e show "books_router s dec d token req = (Inl e, d)"
    by (simp add: books_router_def)
next
  fix payload name
  assume a: "dec token (SECRET_KEY s) [ALGORITHM s] = Some payload \<and> payload ''sub'' = Some name \<and>
      name \<in> set (map username (users d))"
  then obtain user where u: "get_user_by_username d name = Some user"
    using get_user_by_username_None[of d name] by (cases "get_user_by_username d name") auto
  with a have "get_current_user s dec token d = Inr user"
    by (simp add: get_current_user_def)
  with u get_user_by_username_Some[OF u]
  show "\<exists>user. get_current_user s dec token d = Inr user \<and>
         get_user_by_username d name = Some user \<and>
         user \<in> set (users d) \<and> username user = name"
    by blast
qed

theorem get_current_user_unauthorized_witness:
  "(let alice = \<lparr>user_id = 1, username = ''alice'', email = ''a@x.com'', hashed_password = ''$2b$a''\<rparr>;
        d = \<lparr>users = [alice], books = []\<rparr>;
        s = \<lparr>DATABASE_URL = ''sqlite://'', SECRET_KEY = ''k'', ALGORITHM = ''HS256'',
             ACCESS_TOKEN_EXPIRE_MINUTES = 30\<rparr>;
        dec = (\<lambda>t k algs. if t = ''alices-token'' then Some [''sub'' \<mapsto> ''alice'']
                          else if t = ''ghosts-token'' then Some [''sub'' \<mapsto> ''ghost'']
                          else if t = ''no-subject'' then Some Map.empty
                          else None)
    in get_current_user s dec ''alices-token'' d = Inr alice \<and>
       get_current_user s dec ''ghosts-token'' d =
         Inl (HTTPException 401 ''Could not validate credentials''
               [(''WWW-Authenticate'', ''Bearer'')]) \<and>
       get_current_user s dec ''no-subject'' d = Inl credentials_exception \<and>
       get_current_user s dec ''garbage'' d = Inl credentials_exception \<and>
       books_router s dec d ''garbage'' (GET_books 0 10) = (Inl credentials_exception, d))"
proof -
  define alice where "alice = \<lparr>user_id = 1, username = ''alice'', email = ''a@x.com'', hashed_password = ''$2b$a''\<rparr>"
  define d where "d = \<lparr>users = [alice], books = []\<rparr>"
  define s where "s = \<lparr>DATABASE_URL = ''sqlite://'', SECRET_KEY = ''k'', ALGORITHM = ''HS256'',
             ACCESS_TOKEN_EXPIRE_MINUTES = 30\<rparr>"
  define dec :: jwt_decode where
    "dec = (\<lambda>t k algs. if t = ''alices-token'' then Some [''sub'' \<mapsto> ''alice'']
                          else if t = ''ghosts-token'' then Some [''sub'' \<mapsto> ''ghost'']
                          else if t = ''no-subject'' then Some Map.empty
                          else None)"
  note defs = alice_def d_def s_def dec_def
  have ok: "dec ''alices-token'' (SECRET_KEY s) [ALGORITHM s] = Some [''sub'' \<mapsto> ''alice''] \<and>
      [''sub'' \<mapsto> ''alice''] ''sub'' = Some ''alice'' \<and>
      ''alice'' \<in> set (map username (users d))"
    by (simp add: defs)
  have lookup: "get_user_by_username d ''alice'' = Some alice"
    by (simp add: defs get_user_by_username_def)
  have ghost: "dec ''ghosts-token'' (SECRET_KEY s) [ALGORITHM s] = Some [''sub'' \<mapsto> ''ghost''] \<and>
      [''sub'' \<mapsto> ''ghost''] ''sub'' = Some ''ghost'' \<and>
      ''ghost'' \<notin> set (map username (users d))"
    by (simp add: defs)
  have nosub: "dec ''no-subject'' (SECRET_KEY s) [ALGORITHM s] = Some Map.empty"
    by (simp add: defs)
  have bad: "dec ''garbage'' (SECRET_KEY s) [ALGORITHM s] = None"
    by (simp add: defs)
  have 1: "get_current_user s dec ''alices-token'' d = Inr alice"
    using get_current_user_unauthorized[of s dec "''alices-token''" d] ok lookup by fastforce
  have 2: "get_current_user s dec ''ghosts-token'' d = Inl credentials_exception"
    using get_current_user_unauthorized[of s dec "''ghosts-token''" d] ghost by blast
  have 3: "get_current_user s dec ''no-subject'' d = Inl credentials_exception"
    using get_current_user_unauthorized[of s dec "''no-subject''" d] nosub by simp
  have 4: "get_current_user s dec ''garbage'' d = Inl credentials_exception"
    using get_current_user_unauthorized[of s dec "''garbage''" d] bad by simp
  have 5: "books_router s dec d ''garbage'' (GET_books 0 10) = (Inl credentials_exception, d)"
    using get_current_user_unauthorized[of s dec "''garbage''" d "GET_books 0 10"] 4 by blast
  from 1 2 3 4 5 show ?thesis
    unfolding Let_def defs[symmetric] by (simp add: credentials_exception_def)
qed

subsection \<open>Listing with skip and limit\<close>

lemma own_books_after_create:
  "filter (\<lambda>b. author_id b = uid) (books (snd (create_book d c uid))) =
   filter (\<lambda>b. author_id b = uid) (books d) @ [fst (create_book d c uid)]"
  by (simp add: create_book_def Let_def)

lemma get_books_by_user_in_range:
  "sqlite_integer uid \<Longrightarrow> 0 \<le> skip \<Longrightarrow> skip < 2 ^ 63 \<Longrightarrow> 0 \<le> lim \<Longrightarrow> lim < 2 ^ 63 \<Longrightarrow>
   get_books_by_user d uid skip lim =
     Inr (take (nat lim) (drop (nat skip) (filter (\<lambda>b. author_id b = uid) (books d))))"
  by (simp add: get_books_by_user_def limit_def offset_def sqlite_integer_def)

text \<open>
  Outside the 64-bit range the query raises, and the route lets the exception through.
\<close>

lemma get_books_by_user_overflow:
  "\<not> (sqlite_integer uid \<and> sqlite_integer skip \<and> sqlite_integer lim) \<Longrightarrow>
   get_books_by_user d uid skip lim = Inl OverflowError \<and>
   route_read_books d skip lim (cu\<lparr>user_id := uid\<rparr>) = (Inl OverflowError, d)"
  by (auto simp: get_books_by_user_def route_read_books_def)

text \<open>
  C9. For the id of a stored user and a skip and a limit from 0 up to the largest 64-bit
  integer (beyond it the database driver raises), \<open>get_books_by_user\<close> returns the
  user's books in storage order,
  the first \<open>skip\<close> dropped and at most \<open>limit\<close> kept; a created book goes to the end of
  its author's books. So when a user with no books creates three, the list with skip 1 and
  limit 1 is exactly the second one created, also through the route.
\<close>

theorem get_books_by_user_page:
  assumes fresh: "filter (\<lambda>b. author_id b = user_id cu) (books d0) = []"
    and stored: "sqlite_integer (user_id cu)"
  shows "(sqlite_integer uid \<and> 0 \<le> skip \<and> skip < 2 ^ 63 \<and> 0 \<le> lim \<and> lim < 2 ^ 63 \<longrightarrow>
            get_books_by_user d uid skip lim =
              Inr (take (nat lim)
                    (drop (nat skip) (filter (\<lambda>b. author_id b = uid) (books d))))) \<and>
         filter (\<lambda>b. author_id b = uid) (books (snd (create_book d c uid))) =
           filter (\<lambda>b. author_id b = uid) (books d) @ [fst (create_book d c uid)] \<and>
         (case create_book d0 c1 (user_id cu) of (b1, d1) \<Rightarrow>
          case create_book d1 c2 (user_id cu) of (b2, d2) \<Rightarrow>
          case create_book d2 c3 (user_id cu) of (b3, d3) \<Rightarrow>
            get_books_by_user d3 (user_id cu) 1 1 = Inr [b2] \<and>
            route_read_books d3 1 1 cu = (Inr [b2], d3) \<and>
            get_books_by_user d3 (user_id cu) 0 10 = Inr [b1, b2, b3])"
proof -
  obtain b1 d1 where 1: "create_book d0 c1 (user_id cu) = (b1, d1)" by (cases "create_book d0 c1 (user_id cu)")
  obtain b2 d2 where 2: "create_book d1 c2 (user_id cu) = (b2, d2)" by (cases "create_book d1 c2 (user_id cu)")
  obtain b3 d3 where 3: "create_book d2 c3 (user_id cu) = (b3, d3)" by (cases "create_book d2 c3 (user_id cu)")
  have o1: "filter (\<lambda>b. author_id b = user_id cu) (books d1) = [b1]"
    using own_books_after_create[of "user_id cu" d0 c1] 1 fresh by simp
  have o2: "filter (\<lambda>b. author_id b = user_id cu) (books d2) = [b1, b2]"
    using own_books_after_create[of "user_id cu" d1 c2] 2 o1 by simp
  have o3: "filter (\<lambda>b. author_id b = user_id cu) (books d3) = [b1, b2, b3]"
    using own_books_after_create[of "user_id cu" d2 c3] 3 o2 by simp
  have page: "get_books_by_user d3 (user_id cu) 1 1 = Inr [b2]"
    using o3 get_books_by_user_in_range[OF stored, of 1 1 d3] by simp
  have all: "get_books_by_user d3 (user_id cu) 0 10 = Inr [b1, b2, b3]"
    using o3 get_books_by_user_in_range[OF stored, of 0 10 d3] by simp
  have route: "route_read_books d3 1 1 cu = (Inr [b2], d3)"
    using page by (simp add: route_read_books_def)
  from get_books_by_user_in_range[of uid skip lim d] own_books_after_create[of uid d c]
    1 2 3 page all route
  show ?thesis by simp
qed

theorem get_books_by_user_page_witness:
  "(let alice = \<lparr>user_id = 1, username = ''alice'', email = ''a@x.com'', hashed_password = ''$2b$a''\<rparr>;
        d0 = \<lparr>users = [alice],
              books = [\<lparr>book_id = 4, title = ''Other'', author_id = 2, status = read\<rparr>]\<rparr>;
        c1 = \<lparr>create_title = ''One'', create_status = to_read\<rparr>;
        c2 = \<lparr>create_title = ''Two'', create_status = read\<rparr>;
        c3 = \<lparr>create_title = ''Three'', create_status = to_read\<rparr>;
        d3 = snd (create_book (snd (create_book (snd (create_book d0 c1 1)) c2 1)) c3 1)
    in filter (\<lambda>b. author_id b = user_id alice) (books d0) = [] \<and>
       sqlite_integer (user_id alice) \<and>
       get_books_by_user d3 1 1 1 =
         Inr [\<lparr>book_id = 6, title = ''Two'', author_id = 1, status = read\<rparr>] \<and>
       get_books_by_user d3 1 0 2 =
         Inr [\<lparr>book_id = 5, title = ''One'', author_id = 1, status = to_read\<rparr>,
              \<lparr>book_id = 6, title = ''Two'', author_id = 1, status = read\<rparr>])"
proof -
  define alice where "alice = \<lparr>user_id = 1, username = ''alice'', email = ''a@x.com'', hashed_password = ''$2b$a''\<rparr>"
  define d0 where "d0 = \<lparr>users = [alice],
              books = [\<lparr>book_id = 4, title = ''Other'', author_id = 2, status = read\<rparr>]\<rparr>"
  define c1 where "c1 = \<lparr>create_title = ''One'', create_status = to_read\<rparr>"
  define c2 where "c2 = \<lparr>create_title = ''Two'', create_status = read\<rparr>"
  define c3 where "c3 = \<lparr>create_title = ''Three'', create_status = to_read\<rparr>"
  define d3 where "d3 = snd (create_book (snd (create_book (snd (create_book d0 c1 1)) c2 1)) c3 1)"
  note defs = alice_def d0_def c1_def c2_def c3_def
  have fresh: "filter (\<lambda>b. author_id b = user_id alice) (books d0) = []"
    by (simp add: defs)
  have uid: "user_id alice = 1" by (simp add: defs)
  have stored: "sqlite_integer (user_id alice)" by (simp add: defs sqlite_integer_def)
  have one: "sqlite_integer 1" by (simp add: sqlite_integer_def)
  have b2: "fst (create_book (snd (create_book d0 c1 1)) c2 1) =
      \<lparr>book_id = 6, title = ''Two'', author_id = 1, status = read\<rparr>"
    by (simp add: defs create_book_def next_rowid_def Let_def)
  have page: "get_books_by_user d3 1 1 1 = Inr [fst (create_book (snd (create_book d0 c1 1)) c2 1)]"
    using get_books_by_user_page[OF fresh stored, where ?c1.0 = c1 and ?c2.0 = c2 and ?c3.0 = c3
        and skip = 0 and lim = 0 and d = d0 and uid = 1 and c = c1]
    unfolding uid d3_def by (simp only: case_prod_beta)
  have two: "get_books_by_user d3 1 0 2 =
      Inr (take (nat 2) (drop (nat 0) (filter (\<lambda>b. author_id b = 1) (books d3))))"
    using get_books_by_user_page[OF fresh stored, where skip = 0 and lim = 2 and d = d3 and uid = 1] one
    by simp
  have "get_books_by_user d3 1 0 2 =
         Inr [\<lparr>book_id = 5, title = ''One'', author_id = 1, status = to_read\<rparr>,
              \<lparr>book_id = 6, title = ''Two'', author_id = 1, status = read\<rparr>]"
    unfolding two by (simp add: d3_def defs create_book_def next_rowid_def Let_def)
  with page b2 fresh stored show ?thesis
    unfolding Let_def defs[symmetric] d3_def[symmetric] by simp
qed

subsection \<open>Registration\<close>

lemma get_user_by_email_None:
  "get_user_by_email d mail = None \<longleftrightarrow> mail \<notin> set (map email (users d))"
  by (auto simp: get_user_by_email_def find_None_iff)

lemma get_password_hash_cases:
  "get_password_hash digest salt pw = Inl PasswordValueError \<or>
   (\<exists>h. get_password_hash digest salt pw = Inr h)"
  by (simp add: get_password_hash_def pwd_context_hash_def)

lemma route_create_user_taken:
  assumes "get_password_hash digest salt (password user) = Inr h"
    and "new_email user \<in> set (map email (users d))"
  shows "route_create_user digest salt d user =
           (Inl (HTTPException 400 ''Email already registered'' []), d)"
proof -
  from assms(2) get_user_by_email_None[of d "new_email user"]
  obtain u where "get_user_by_email d (new_email user) = Some u"
    by (cases "get_user_by_email d (new_email user)") auto
  with assms(1) show ?thesis by (simp add: route_create_user_def)
qed

lemma route_create_user_free:
  assumes "get_password_hash digest salt (password user) = Inr h"
    and "new_email user \<notin> set (map email (users d))"
  shows "route_create_user digest salt d user = create_user d user h"
  using assms get_user_by_email_None[of d "new_email user"]
  by (simp add: route_create_user_def)

lemma route_create_user_rejected:
  assumes "get_password_hash digest salt (password user) = Inl e"
  shows "route_create_user digest salt d user = (Inl e, d)"
  using assms by (simp add: route_create_user_def)

lemma create_user_result:
  "create_user d user hashed = (Inl IntegrityError, d) \<or>
   (\<exists>u. create_user d user hashed = (Inr u, d\<lparr>users := users d @ [u]\<rparr>))"
  by (simp add: create_user_def Let_def)


text \<open>
  C10. When registration answers 400 "Email already registered", the email is a stored
  one and the database it leaves is the one it found. The same holds for every exception
  of the route: a request that fails adds no row. The 400 is the answer whenever the
  email is stored and the hashing, which runs first, has returned.
\<close>

theorem conflict_leaves_store:
  "(fst (route_create_user digest salt d user) =
      Inl (HTTPException 400 ''Email already registered'' []) \<longrightarrow>
    snd (route_create_user digest salt d user) = d \<and>
    new_email user \<in> set (map email (users d))) \<and>
   (\<forall>e. fst (route_create_user digest salt d user) = Inl e \<longrightarrow>
    snd (route_create_user digest salt d user) = d) \<and>
   (new_email user \<in> set (map email (users d)) \<and>
    (\<exists>h. get_password_hash digest salt (password user) = Inr h) \<longrightarrow>
    route_create_user digest salt d user =
      (Inl (HTTPException 400 ''Email already registered'' []), d))"
proof -
  from get_password_hash_cases[of digest salt "password user"]
  consider (rejected) "get_password_hash digest salt (password user) = Inl PasswordValueError"
    | (taken) h where "get_password_hash digest salt (password user) = Inr h"
        "new_email user \<in> set (map email (users d))"
    | (free) h where "get_password_hash digest salt (password user) = Inr h"
        "new_email user \<notin> set (map email (users d))"
    by blast
  then show ?thesis
  proof cases
    case rejected
    from route_create_user_rejected[OF this, of d] rejected show ?thesis by simp
  next
    case taken
    from route_create_user_taken[OF taken, of ] taken show ?thesis by simp
  next
    case free
    from create_user_result[of d user h] show ?thesis
      unfolding route_create_user_free[OF free] using free by auto
  qed
qed

theorem conflict_leaves_store_witness:
  "(let alice = \<lparr>user_id = 1, username = ''alice'', email = ''a@x.com'', hashed_password = ''$2b$a''\<rparr>;
        d = \<lparr>users = [alice], books = []\<rparr>;
        again = \<lparr>new_username = ''alice2'', new_email = ''a@x.com'', password = ''pw123''\<rparr>
    in route_create_user (\<lambda>config key. rev key) ''abcdefghijklmnopqrstuv'' d again =
         (Inl (HTTPException 400 ''Email already registered'' []), d))"
proof -
  define alice where "alice = \<lparr>user_id = 1, username = ''alice'', email = ''a@x.com'', hashed_password = ''$2b$a''\<rparr>"
  define d where "d = \<lparr>users = [alice], books = []\<rparr>"
  define again where "again = \<lparr>new_username = ''alice2'', new_email = ''a@x.com'', password = ''pw123''\<rparr>"
  note defs = alice_def d_def again_def
  have taken: "new_email again \<in> set (map email (users d))" by (simp add: defs)
  have hashed: "\<exists>h. get_password_hash (\<lambda>config key. rev key) ''abcdefghijklmnopqrstuv''
      (password again) = Inr h"
    by (simp add: defs get_password_hash_def pwd_context_hash_def)
  from conflict_leaves_store[of "\<lambda>config key. rev key" "''abcdefghijklmnopqrstuv''" d again]
    taken hashed
  have "route_create_user (\<lambda>config key. rev key) ''abcdefghijklmnopqrstuv'' d again =
         (Inl (HTTPException 400 ''Email already registered'' []), d)"
    by blast
  then show ?thesis
    unfolding Let_def defs[symmetric] .
qed




subsection \<open>Hashing and verifying a password\<close>









text \<open>
  C4. For the password \<^verbatim>\<open>pw123\<close> and the string \<^verbatim>\<open>not-a-hash\<close>, which no configured
  scheme identifies, \<open>verify_password\<close> does not return false: the context raises
  \<^verbatim>\<open>UnknownHashError\<close>, whatever the cipher, and \<open>verify_password\<close> lets it through.
\<close>

theorem verify_password_unidentified_raises:
  "verify_password digest ''pw123'' ''not-a-hash'' = Inl UnknownHashError"
  by (simp add: verify_password_def pwd_context_verify_def bcrypt_identify_def)

subsection \<open>Tokens\<close>

text \<open>
  The round trip of a token, relative to the library: where decoding the token that
  \<open>create_access_token\<close> made for the username of a stored user gives back the payload,
  \<open>get_current_user\<close> returns that user.
\<close>

lemma issued_token_resolves:
  assumes roundtrip: "dec (enc [''sub'' \<mapsto> username u] (SECRET_KEY s) (ALGORITHM s))
                        (SECRET_KEY s) [ALGORITHM s] = Some [''sub'' \<mapsto> username u]"
    and stored: "get_user_by_username d (username u) = Some u"
  shows "get_current_user s dec (create_access_token s enc [''sub'' \<mapsto> username u]) d = Inr u"
  using assms by (simp add: get_current_user_def create_access_token_def)

end
